theory Spec2Isabelle
  imports Main
begin

section \<open>The hook \<open>useRecordContractPlatform\<close>: data model\<close>

text \<open>
  The development embeds the hook of
  \<^verbatim>\<open>react-front/src/hooks/useRecordContractPlatform.ts\<close>.
  Addresses and transaction hashes are the hexadecimal strings of the source. Whatever
  a transport throws is kept as an opaque message.
\<close>

type_synonym Address = string
type_synonym Hash = string
type_synonym exn = string

record Child =
  childEOA :: Address
  role :: string

text \<open>
  The three \<^verbatim>\<open>throw new Error(...)\<close> of the writers carry three different
  messages (contract address not set, wallet not connected, user address not set);
  they are named here as the specification names them. \<open>Thrown\<close> is an exception that
  comes out of a transport.
\<close>

datatype error = ConfigurationError | ConnectionError | IdentityError | Thrown exn

text \<open>The two chain descriptions the hook takes from the client library.\<close>

datatype chain = hardhat | sepolia

text \<open>\<open>http (Some url)\<close> is \<^verbatim>\<open>http(url)\<close>; \<open>http None\<close> is \<^verbatim>\<open>http()\<close>, the default
  endpoint of the chain the client is created for.\<close>

datatype transport = http "string option"

datatype PublicClient = createPublicClient chain transport

record ContractCall =
  address :: Address
  functionName :: string
  args :: "string list"

record WriteContractParameters = ContractCall +
  account :: Address
  chain :: chain

text \<open>
  A wallet client is its \<^verbatim>\<open>writeContract\<close> method; a read transport is the
  \<^verbatim>\<open>readContract\<close> method of the public client it is asked through. The result type
  of a read is the type the source casts the decoded value to.
\<close>

type_synonym WalletClient = "WriteContractParameters \<Rightarrow> exn + Hash"
type_synonym 'a readContract = "PublicClient \<Rightarrow> ContractCall \<Rightarrow> exn + 'a"

text \<open>What the hook reads from its two contexts in one render. An absent value
  (\<^verbatim>\<open>undefined\<close>, \<^verbatim>\<open>null\<close>) is \<open>None\<close>.\<close>

record hook_env =
  userAddress :: "Address option"
  chainId :: "int option"
  walletClient :: "WalletClient option"

text \<open>
  The diagnostics written to the console: the two warnings of the short-circuits and
  the error line of each \<^verbatim>\<open>catch\<close>, with the caught exception.
\<close>

datatype diagnostic =
    WarnAddressNotSet
  | WarnNoQueryAddress
  | ErrFetchChildren exn
  | ErrGetChildByRole exn
  | ErrGetChildrenCount exn
  | ErrIsChildOf exn

text \<open>Every effect of the hook, in the order it happens.\<close>

datatype event =
    SetIsPending bool
  | SetChildren "Child list"
  | WriteContract WriteContractParameters
  | ReadContract PublicClient ContractCall
  | Console diagnostic

text \<open>
  The two state cells of the hook, and the effects observed so far. A cell holds the
  value of the latest call of its setter, which is what the next render of the hook
  shows; the setter calls themselves are in the trace.
\<close>

record hook_state =
  isPending :: bool
  children :: "Child list"
  trace :: "event list"

definition emit :: "event \<Rightarrow> hook_state \<Rightarrow> hook_state" where
  "emit e s = s\<lparr>trace := trace s @ [e]\<rparr>"

definition setIsPending :: "bool \<Rightarrow> hook_state \<Rightarrow> hook_state" where
  "setIsPending b s = emit (SetIsPending b) (s\<lparr>isPending := b\<rparr>)"

definition setChildren :: "Child list \<Rightarrow> hook_state \<Rightarrow> hook_state" where
  "setChildren cs s = emit (SetChildren cs) (s\<lparr>children := cs\<rparr>)"

fun is_network :: "event \<Rightarrow> bool" where
  "is_network (WriteContract _) = True"
| "is_network (ReadContract _ _) = True"
| "is_network _ = False"

definition network_calls :: "hook_state \<Rightarrow> event list" where
  "network_calls s = filter is_network (trace s)"

section \<open>Resolution of the contract address and of the read transport\<close>

definition zero_address :: Address where
  "zero_address = ''0x0000000000000000000000000000000000000000''"

definition getContractAddress :: "int option \<Rightarrow> Address" where
  "getContractAddress cid =
     (if cid = Some 11155111 then ''0xB1Db2211cB3bFAe1fB676104cA21f236F832435D''
      else if cid = Some 31337 then ''0x0000000000000000000000000000000000000000''
      else ''0x0000000000000000000000000000000000000000'')"

definition getPublicClient :: "int option \<Rightarrow> PublicClient" where
  "getPublicClient cid =
     (let chain = (if cid = Some 31337 then hardhat else sepolia)
      in createPublicClient chain
           (if cid = Some 31337 then http (Some ''http://127.0.0.1:8545'') else http None))"

text \<open>
  The test \<^verbatim>\<open>!contractAddress || contractAddress === '0x00...00'\<close> on a string: the
  empty string is the only falsy one.
\<close>

definition unset :: "Address \<Rightarrow> bool" where
  "unset a = (a = [] \<or> a = ''0x0000000000000000000000000000000000000000'')"

text \<open>\<^verbatim>\<open>!x\<close> on an optional string, and \<^verbatim>\<open>a || b\<close>.\<close>

definition falsy :: "string option \<Rightarrow> bool" where
  "falsy x = (x = None \<or> x = Some [])"

definition or_else :: "string option \<Rightarrow> string option \<Rightarrow> string option" where
  "or_else a b = (if falsy a then b else a)"

section \<open>The read operations\<close>

text \<open>
  Each read operation returns its value and the state it leaves. The value is a sum so
  that an exception leaving the operation would be an \<open>Inl\<close>; the \<^verbatim>\<open>try\<close> block
  is the \<^theory_text>\<open>case\<close> on the transport's answer, and its \<open>Inl\<close> branch is the
  \<^verbatim>\<open>catch\<close>.
\<close>

definition fetchChildren ::
  "hook_env \<Rightarrow> Child list readContract \<Rightarrow> Address option \<Rightarrow> hook_state
     \<Rightarrow> (error + Child list) \<times> hook_state" where
  "fetchChildren env readContract ownerAddress s =
     (let contractAddress = getContractAddress (chainId env) in
      if unset contractAddress then (Inr [], emit (Console WarnAddressNotSet) s)
      else
        (case or_else ownerAddress (userAddress env) of
           None \<Rightarrow> (Inr [], emit (Console WarnNoQueryAddress) s)
         | Some targetAddress \<Rightarrow>
             if targetAddress = [] then (Inr [], emit (Console WarnNoQueryAddress) s)
             else
               (let publicClient = getPublicClient (chainId env);
                    call = \<lparr>address = contractAddress, functionName = ''getChildren'',
                            args = [targetAddress]\<rparr>;
                    s1 = emit (ReadContract publicClient call) s
                in case readContract publicClient call of
                     Inr result \<Rightarrow> (Inr result, setChildren result s1)
                   | Inl e \<Rightarrow> (Inr [], emit (Console (ErrFetchChildren e)) s1))))"

definition getChildByRole ::
  "hook_env \<Rightarrow> Address readContract \<Rightarrow> string \<Rightarrow> Address option \<Rightarrow> hook_state
     \<Rightarrow> (error + Address option) \<times> hook_state" where
  "getChildByRole env readContract role' ownerAddress s =
     (let contractAddress = getContractAddress (chainId env) in
      if unset contractAddress then (Inr None, emit (Console WarnAddressNotSet) s)
      else
        (case or_else ownerAddress (userAddress env) of
           None \<Rightarrow> (Inr None, emit (Console WarnNoQueryAddress) s)
         | Some targetAddress \<Rightarrow>
             if targetAddress = [] then (Inr None, emit (Console WarnNoQueryAddress) s)
             else
               (let publicClient = getPublicClient (chainId env);
                    call = \<lparr>address = contractAddress, functionName = ''getChildByRole'',
                            args = [targetAddress, role']\<rparr>;
                    s1 = emit (ReadContract publicClient call) s
                in case readContract publicClient call of
                     Inr result \<Rightarrow>
                       (Inr (if result = ''0x0000000000000000000000000000000000000000''
                             then None else Some result), s1)
                   | Inl e \<Rightarrow> (Inr None, emit (Console (ErrGetChildByRole e)) s1))))"

text \<open>
  \<^verbatim>\<open>Number(result)\<close> on a non-negative \<^verbatim>\<open>bigint\<close> is the double nearest to it, ties
  to the even significand, and \<^verbatim>\<open>Infinity\<close> from \<open>2 ^ 1024\<close> on. A double that is
  at least \<open>2 ^ 53\<close> is a whole number, so the finite results are natural numbers: the
  value keeps the 53 leading bits of the count and rounds the rest away.
\<close>

datatype number = Finite nat | Infinity

fun bit_length :: "nat \<Rightarrow> nat" where
  "bit_length n = (if n = 0 then 0 else Suc (bit_length (n div 2)))"

definition round_to_double :: "nat \<Rightarrow> nat" where
  "round_to_double n =
     (let e = bit_length n - 53;
          q = n div 2 ^ e;
          r = n mod 2 ^ e
      in if 2 ^ e < 2 * r \<or> (2 * r = 2 ^ e \<and> odd q) then (q + 1) * 2 ^ e else q * 2 ^ e)"

definition Number :: "nat \<Rightarrow> number" where
  "Number n = (let d = round_to_double n in if d < 2 ^ 1024 then Finite d else Infinity)"

definition getChildrenCount ::
  "hook_env \<Rightarrow> nat readContract \<Rightarrow> Address option \<Rightarrow> hook_state
     \<Rightarrow> (error + number) \<times> hook_state" where
  "getChildrenCount env readContract ownerAddress s =
     (let contractAddress = getContractAddress (chainId env) in
      if unset contractAddress then (Inr (Finite 0), s)
      else
        (case or_else ownerAddress (userAddress env) of
           None \<Rightarrow> (Inr (Finite 0), s)
         | Some targetAddress \<Rightarrow>
             if targetAddress = [] then (Inr (Finite 0), s)
             else
               (let publicClient = getPublicClient (chainId env);
                    call = \<lparr>address = contractAddress, functionName = ''getChildrenCount'',
                            args = [targetAddress]\<rparr>;
                    s1 = emit (ReadContract publicClient call) s
                in case readContract publicClient call of
                     Inr result \<Rightarrow> (Inr (Number result), s1)
                   | Inl e \<Rightarrow> (Inr (Finite 0), emit (Console (ErrGetChildrenCount e)) s1))))"

definition isChildOf ::
  "hook_env \<Rightarrow> bool readContract \<Rightarrow> Address \<Rightarrow> Address option \<Rightarrow> hook_state
     \<Rightarrow> (error + bool) \<times> hook_state" where
  "isChildOf env readContract childAddress ownerAddress s =
     (let contractAddress = getContractAddress (chainId env) in
      if unset contractAddress then (Inr False, s)
      else
        (case or_else ownerAddress (userAddress env) of
           None \<Rightarrow> (Inr False, s)
         | Some targetAddress \<Rightarrow>
             if targetAddress = [] then (Inr False, s)
             else
               (let publicClient = getPublicClient (chainId env);
                    call = \<lparr>address = contractAddress, functionName = ''isChildOf'',
                            args = [targetAddress, childAddress]\<rparr>;
                    s1 = emit (ReadContract publicClient call) s
                in case readContract publicClient call of
                     Inr result \<Rightarrow> (Inr result, s1)
                   | Inl e \<Rightarrow> (Inr False, emit (Console (ErrIsChildOf e)) s1))))"

section \<open>The write operations\<close>

text \<open>
  The three guards come first and leave the state as it is. After them the body of
  \<^verbatim>\<open>try\<close> runs between \<open>setIsPending True\<close> and the \<open>setIsPending False\<close> of
  \<^verbatim>\<open>finally\<close>, which is applied to the state of every outcome of the body.
\<close>

definition addChild ::
  "hook_env \<Rightarrow> Child list readContract \<Rightarrow> Address \<Rightarrow> string \<Rightarrow> hook_state
     \<Rightarrow> (error + Hash) \<times> hook_state" where
  "addChild env readContract childAddress role' s =
     (let contractAddress = getContractAddress (chainId env) in
      if unset contractAddress then (Inl ConfigurationError, s)
      else
        (case walletClient env of
           None \<Rightarrow> (Inl ConnectionError, s)
         | Some writeContract \<Rightarrow>
             (case userAddress env of
                None \<Rightarrow> (Inl IdentityError, s)
              | Some user \<Rightarrow>
                  if user = [] then (Inl IdentityError, s)
                  else
                    (let s1 = setIsPending True s;
                         chain = (if chainId env = Some 31337 then hardhat else sepolia);
                         params = \<lparr>address = contractAddress, functionName = ''addChild'',
                                   args = [childAddress, role'], account = user,
                                   chain = chain\<rparr>;
                         s2 = emit (WriteContract params) s1;
                         (outcome, s3) =
                           (case writeContract params of
                              Inl e \<Rightarrow> (Inl (Thrown e), s2)
                            | Inr hash \<Rightarrow>
                                (case fetchChildren env readContract None s2 of
                                   (Inl e, s') \<Rightarrow> (Inl e, s')
                                 | (Inr _, s') \<Rightarrow> (Inr hash, s')))
                     in (outcome, setIsPending False s3)))))"

definition removeChild ::
  "hook_env \<Rightarrow> Child list readContract \<Rightarrow> Address \<Rightarrow> hook_state
     \<Rightarrow> (error + Hash) \<times> hook_state" where
  "removeChild env readContract childAddress s =
     (let contractAddress = getContractAddress (chainId env) in
      if unset contractAddress then (Inl ConfigurationError, s)
      else
        (case walletClient env of
           None \<Rightarrow> (Inl ConnectionError, s)
         | Some writeContract \<Rightarrow>
             (case userAddress env of
                None \<Rightarrow> (Inl IdentityError, s)
              | Some user \<Rightarrow>
                  if user = [] then (Inl IdentityError, s)
                  else
                    (let s1 = setIsPending True s;
                         chain = (if chainId env = Some 31337 then hardhat else sepolia);
                         params = \<lparr>address = contractAddress, functionName = ''removeChild'',
                                   args = [childAddress], account = user, chain = chain\<rparr>;
                         s2 = emit (WriteContract params) s1;
                         (outcome, s3) =
                           (case writeContract params of
                              Inl e \<Rightarrow> (Inl (Thrown e), s2)
                            | Inr hash \<Rightarrow>
                                (case fetchChildren env readContract None s2 of
                                   (Inl e, s') \<Rightarrow> (Inl e, s')
                                 | (Inr _, s') \<Rightarrow> (Inr hash, s')))
                     in (outcome, setIsPending False s3)))))"

section \<open>The calls the operations make\<close>

text \<open>Names for the requests that the writers build and for the request of the refresh.\<close>

abbreviation target_chain :: "hook_env \<Rightarrow> chain" where
  "target_chain env \<equiv> (if chainId env = Some 31337 then hardhat else sepolia)"

abbreviation addChild_call :: "hook_env \<Rightarrow> Address \<Rightarrow> string \<Rightarrow> Address \<Rightarrow> WriteContractParameters" where
  "addChild_call env childAddress role' user \<equiv>
     \<lparr>address = getContractAddress (chainId env), functionName = ''addChild'',
        args = [childAddress, role'], account = user, chain = target_chain env\<rparr>"

abbreviation removeChild_call :: "hook_env \<Rightarrow> Address \<Rightarrow> Address \<Rightarrow> WriteContractParameters" where
  "removeChild_call env childAddress user \<equiv>
     \<lparr>address = getContractAddress (chainId env), functionName = ''removeChild'',
        args = [childAddress], account = user, chain = target_chain env\<rparr>"

abbreviation getChildren_call :: "hook_env \<Rightarrow> Address \<Rightarrow> ContractCall" where
  "getChildren_call env owner \<equiv>
     \<lparr>address = getContractAddress (chainId env), functionName = ''getChildren'',
        args = [owner]\<rparr>"

section \<open>Example inputs\<close>

text \<open>
  An idle hook, a wallet that answers with a transaction hash and one that refuses, an
  environment with an authenticated account on a given network, and read transports that
  fail or answer with a fixed value.
\<close>

definition idle :: hook_state where
  "idle = \<lparr>isPending = False, children = [], trace = []\<rparr>"

definition wallet_ok :: WalletClient where
  "wallet_ok = (\<lambda>_. Inr ''0xTX1'')"

definition wallet_failing :: WalletClient where
  "wallet_failing = (\<lambda>_. Inl ''user rejected the request'')"

definition scenario :: "int \<Rightarrow> hook_env" where
  "scenario n = \<lparr>userAddress = Some ''0xU'', chainId = Some n, walletClient = Some wallet_ok\<rparr>"

definition read_failing :: "'a readContract" where
  "read_failing = (\<lambda>_ _. Inl ''timeout'')"

definition read_answering :: "'a \<Rightarrow> 'a readContract" where
  "read_answering x = (\<lambda>_ _. Inr x)"

section \<open>Auxiliary facts\<close>

subsection \<open>Guards and the read operations\<close>

lemma unset_getContractAddress:
  "unset (getContractAddress cid) \<longleftrightarrow> cid \<noteq> Some 11155111"
  by (simp add: unset_def getContractAddress_def)

lemma or_else_None [simp]: "or_else None b = b"
  by (simp add: or_else_def falsy_def)

lemma falsy_or_else: "falsy (or_else a b) \<longleftrightarrow> falsy a \<and> falsy b"
  by (simp add: or_else_def)

lemma falsy_cases: "falsy x \<or> (\<exists>t. x = Some t \<and> t \<noteq> [])"
  by (cases x) (auto simp: falsy_def)

lemma fetchChildren_unset:
  "unset (getContractAddress (chainId env)) \<Longrightarrow>
   fetchChildren env rd owner s = (Inr [], emit (Console WarnAddressNotSet) s)"
  by (simp add: fetchChildren_def)

lemma fetchChildren_no_owner:
  "\<not> unset (getContractAddress (chainId env)) \<Longrightarrow> falsy (or_else owner (userAddress env)) \<Longrightarrow>
   fetchChildren env rd owner s = (Inr [], emit (Console WarnNoQueryAddress) s)"
  by (auto simp: fetchChildren_def falsy_def)

lemma fetchChildren_read:
  "\<not> unset (getContractAddress (chainId env)) \<Longrightarrow> or_else owner (userAddress env) = Some t \<Longrightarrow>
   t \<noteq> [] \<Longrightarrow>
   fetchChildren env rd owner s =
     (case rd (getPublicClient (chainId env))
              \<lparr>address = getContractAddress (chainId env), functionName = ''getChildren'',
                 args = [t]\<rparr> of
        Inr result \<Rightarrow>
          (Inr result,
           setChildren result
             (emit (ReadContract (getPublicClient (chainId env))
                      \<lparr>address = getContractAddress (chainId env),
                         functionName = ''getChildren'', args = [t]\<rparr>) s))
      | Inl e \<Rightarrow>
          (Inr [],
           emit (Console (ErrFetchChildren e))
             (emit (ReadContract (getPublicClient (chainId env))
                      \<lparr>address = getContractAddress (chainId env),
                         functionName = ''getChildren'', args = [t]\<rparr>) s)))"
  by (simp add: fetchChildren_def Let_def)

lemma fetchChildren_never_raises: "\<exists>v. fst (fetchChildren env rd owner s) = Inr v"
  by (simp add: fetchChildren_def Let_def split: option.split sum.split)

lemma getChildByRole_never_raises: "\<exists>v. fst (getChildByRole env rd r owner s) = Inr v"
  by (simp add: getChildByRole_def Let_def split: option.split sum.split)

lemma getChildrenCount_never_raises: "\<exists>v. fst (getChildrenCount env rd owner s) = Inr v"
  by (simp add: getChildrenCount_def Let_def split: option.split sum.split)

lemma isChildOf_never_raises: "\<exists>v. fst (isChildOf env rd c owner s) = Inr v"
  by (auto simp: isChildOf_def Let_def split: option.split sum.split)

lemma network_calls_emit_Console [simp]:
  "network_calls (emit (Console d) s) = network_calls s"
  by (simp add: network_calls_def emit_def)

lemma fetchChildren_short:
  "unset (getContractAddress (chainId env)) \<or> falsy (or_else owner (userAddress env)) \<Longrightarrow>
   fst (fetchChildren env rd owner s) = Inr [] \<and>
   network_calls (snd (fetchChildren env rd owner s)) = network_calls s"
  by (cases "unset (getContractAddress (chainId env))")
     (auto simp: fetchChildren_unset fetchChildren_no_owner)

lemma getChildByRole_short:
  "unset (getContractAddress (chainId env)) \<or> falsy (or_else owner (userAddress env)) \<Longrightarrow>
   fst (getChildByRole env rd r owner s) = Inr None \<and>
   network_calls (snd (getChildByRole env rd r owner s)) = network_calls s"
  by (auto simp: getChildByRole_def Let_def falsy_def split: option.split)

lemma getChildrenCount_short:
  "unset (getContractAddress (chainId env)) \<or> falsy (or_else owner (userAddress env)) \<Longrightarrow>
   fst (getChildrenCount env rd owner s) = Inr (Finite 0) \<and>
   network_calls (snd (getChildrenCount env rd owner s)) = network_calls s"
  by (auto simp: getChildrenCount_def Let_def falsy_def split: option.split)

lemma isChildOf_short:
  "unset (getContractAddress (chainId env)) \<or> falsy (or_else owner (userAddress env)) \<Longrightarrow>
   fst (isChildOf env rd c owner s) = Inr False \<and>
   network_calls (snd (isChildOf env rd c owner s)) = network_calls s"
  by (auto simp: isChildOf_def Let_def falsy_def split: option.split)

lemma fetchChildren_failed:
  "or_else owner (userAddress env) = Some t \<Longrightarrow>
   rd (getPublicClient (chainId env))
      \<lparr>address = getContractAddress (chainId env), functionName = ''getChildren'',
         args = [t]\<rparr> = Inl e \<Longrightarrow>
   fst (fetchChildren env rd owner s) = Inr []"
  by (simp add: fetchChildren_def Let_def)

lemma getChildByRole_failed:
  "or_else owner (userAddress env) = Some t \<Longrightarrow>
   rd (getPublicClient (chainId env))
      \<lparr>address = getContractAddress (chainId env), functionName = ''getChildByRole'',
         args = [t, r]\<rparr> = Inl e \<Longrightarrow>
   fst (getChildByRole env rd r owner s) = Inr None"
  by (simp add: getChildByRole_def Let_def)

lemma getChildrenCount_failed:
  "or_else owner (userAddress env) = Some t \<Longrightarrow>
   rd (getPublicClient (chainId env))
      \<lparr>address = getContractAddress (chainId env), functionName = ''getChildrenCount'',
         args = [t]\<rparr> = Inl e \<Longrightarrow>
   fst (getChildrenCount env rd owner s) = Inr (Finite 0)"
  by (simp add: getChildrenCount_def Let_def)

lemma isChildOf_failed:
  "or_else owner (userAddress env) = Some t \<Longrightarrow>
   rd (getPublicClient (chainId env))
      \<lparr>address = getContractAddress (chainId env), functionName = ''isChildOf'',
         args = [t, c]\<rparr> = Inl e \<Longrightarrow>
   fst (isChildOf env rd c owner s) = Inr False"
  by (simp add: isChildOf_def Let_def)

subsection \<open>Facts about the conversion to a double\<close>

lemma bit_length_le: "n < 2 ^ k \<Longrightarrow> bit_length n \<le> k"
proof (induction n arbitrary: k rule: bit_length.induct)
  case (1 n)
  show ?case
  proof (cases "n = 0")
    case True
    then show ?thesis by simp
  next
    case False
    then obtain j where k: "k = Suc j" using "1.prems" by (cases k) auto
    from "1.prems" k have "n div 2 < 2 ^ j" by auto
    with "1.IH" False have "bit_length (n div 2) \<le> j" by blast
    with False k show ?thesis by (subst bit_length.simps) simp
  qed
qed

lemma round_to_double_small: "n < 2 ^ 53 \<Longrightarrow> round_to_double n = n"
proof -
  assume "n < 2 ^ 53"
  then have e: "bit_length n - 53 = 0" using bit_length_le [of n 53] by simp
  show ?thesis unfolding round_to_double_def e by simp
qed

lemma bit_length_double: "0 < n \<Longrightarrow> bit_length (2 * n) = Suc (bit_length n)"
  by (subst bit_length.simps) simp

lemma bit_length_pow: "bit_length (2 ^ k) = Suc k"
proof (induction k)
  case 0
  show ?case by (subst bit_length.simps) simp
next
  case (Suc k)
  then show ?case using bit_length_double [of "2 ^ k"] by simp
qed

lemma round_to_double_pow53: "round_to_double (2 ^ 53) = 2 ^ 53"
proof -
  have e: "bit_length (2 ^ 53) - 53 = Suc 0" using bit_length_pow [of 53] by simp
  show ?thesis unfolding round_to_double_def e by simp
qed

lemma Number_exact: "n \<le> 2 ^ 53 \<Longrightarrow> Number n = Finite n"
proof -
  assume n: "n \<le> 2 ^ 53"
  have r: "round_to_double n = n"
  proof (cases "n = 2 ^ 53")
    case True then show ?thesis by (simp only: round_to_double_pow53)
  next
    case False with n have "n < 2 ^ 53" by simp
    then show ?thesis by (rule round_to_double_small)
  qed
  have "(2::nat) ^ 53 < 2 ^ 1024" by (rule power_strict_increasing) simp_all
  with n have "n < 2 ^ 1024" by simp
  with r show ?thesis by (simp add: Number_def)
qed

text \<open>Beyond \<open>2 ^ 53\<close> the conversion rounds: the count \<open>2 ^ 53 + 1\<close> becomes \<open>2 ^ 53\<close>.\<close>

lemma bit_length_ge: "2 ^ k \<le> n \<Longrightarrow> Suc k \<le> bit_length n"
proof (induction k arbitrary: n)
  case 0
  then show ?case by (subst bit_length.simps) simp
next
  case (Suc k)
  then have "2 ^ k \<le> n div 2" by simp
  then have "Suc k \<le> bit_length (n div 2)" by (rule Suc.IH)
  moreover have "(0::nat) < 2 ^ Suc k" by simp
  with Suc.prems have "n \<noteq> 0" by linarith
  ultimately show ?case by (subst bit_length.simps) simp
qed

lemma Number_rounds_above_two_53: "Number 9007199254740993 = Finite 9007199254740992"
proof -
  have "bit_length 9007199254740993 \<le> 54" by (rule bit_length_le) simp
  moreover have "Suc 53 \<le> bit_length 9007199254740993" by (rule bit_length_ge) simp
  ultimately have e: "bit_length 9007199254740993 - 53 = Suc 0" by simp
  have r: "round_to_double 9007199254740993 = 9007199254740992"
    unfolding round_to_double_def e by simp
  have "(9007199254740992::nat) < 2 ^ 54" by simp
  also have "(2::nat) ^ 54 < 2 ^ 1024" by (rule power_strict_increasing) simp_all
  finally show ?thesis by (simp add: Number_def r)
qed

subsection \<open>The write operations, path by path\<close>

lemma addChild_guard_config:
  "unset (getContractAddress (chainId env)) \<Longrightarrow>
   addChild env rd c r s = (Inl ConfigurationError, s)"
  by (simp add: addChild_def)

lemma addChild_guard_wallet:
  "\<not> unset (getContractAddress (chainId env)) \<Longrightarrow> walletClient env = None \<Longrightarrow>
   addChild env rd c r s = (Inl ConnectionError, s)"
  by (simp add: addChild_def)

lemma addChild_guard_user:
  "\<not> unset (getContractAddress (chainId env)) \<Longrightarrow> walletClient env \<noteq> None \<Longrightarrow>
   falsy (userAddress env) \<Longrightarrow> addChild env rd c r s = (Inl IdentityError, s)"
  by (auto simp: addChild_def falsy_def)

lemma removeChild_guard_config:
  "unset (getContractAddress (chainId env)) \<Longrightarrow>
   removeChild env rd c s = (Inl ConfigurationError, s)"
  by (simp add: removeChild_def)

lemma removeChild_guard_wallet:
  "\<not> unset (getContractAddress (chainId env)) \<Longrightarrow> walletClient env = None \<Longrightarrow>
   removeChild env rd c s = (Inl ConnectionError, s)"
  by (simp add: removeChild_def)

lemma removeChild_guard_user:
  "\<not> unset (getContractAddress (chainId env)) \<Longrightarrow> walletClient env \<noteq> None \<Longrightarrow>
   falsy (userAddress env) \<Longrightarrow> removeChild env rd c s = (Inl IdentityError, s)"
  by (auto simp: removeChild_def falsy_def)

text \<open>The three ways through the body once the guards have passed.\<close>

lemma addChild_submission_fails:
  "\<not> unset (getContractAddress (chainId env)) \<Longrightarrow> walletClient env = Some wc \<Longrightarrow>
   userAddress env = Some u \<Longrightarrow> u \<noteq> [] \<Longrightarrow> wc (addChild_call env c r u) = Inl e \<Longrightarrow>
   addChild env rd c r s =
     (Inl (Thrown e),
      s\<lparr>isPending := False,
        trace := trace s @ [SetIsPending True, WriteContract (addChild_call env c r u),
                           SetIsPending False]\<rparr>)"
  by (simp add: addChild_def Let_def setIsPending_def emit_def)

lemma addChild_refreshed:
  "\<not> unset (getContractAddress (chainId env)) \<Longrightarrow> walletClient env = Some wc \<Longrightarrow>
   userAddress env = Some u \<Longrightarrow> u \<noteq> [] \<Longrightarrow> wc (addChild_call env c r u) = Inr h \<Longrightarrow>
   rd (getPublicClient (chainId env)) (getChildren_call env u) = Inr cs \<Longrightarrow>
   addChild env rd c r s =
     (Inr h,
      s\<lparr>isPending := False, children := cs,
        trace := trace s @ [SetIsPending True, WriteContract (addChild_call env c r u),
                           ReadContract (getPublicClient (chainId env)) (getChildren_call env u),
                           SetChildren cs, SetIsPending False]\<rparr>)"
  by (simp add: addChild_def Let_def fetchChildren_read setIsPending_def setChildren_def emit_def)

lemma addChild_refresh_fails:
  "\<not> unset (getContractAddress (chainId env)) \<Longrightarrow> walletClient env = Some wc \<Longrightarrow>
   userAddress env = Some u \<Longrightarrow> u \<noteq> [] \<Longrightarrow> wc (addChild_call env c r u) = Inr h \<Longrightarrow>
   rd (getPublicClient (chainId env)) (getChildren_call env u) = Inl e \<Longrightarrow>
   addChild env rd c r s =
     (Inr h,
      s\<lparr>isPending := False,
        trace := trace s @ [SetIsPending True, WriteContract (addChild_call env c r u),
                           ReadContract (getPublicClient (chainId env)) (getChildren_call env u),
                           Console (ErrFetchChildren e), SetIsPending False]\<rparr>)"
  by (simp add: addChild_def Let_def fetchChildren_read setIsPending_def emit_def)

lemma removeChild_submission_fails:
  "\<not> unset (getContractAddress (chainId env)) \<Longrightarrow> walletClient env = Some wc \<Longrightarrow>
   userAddress env = Some u \<Longrightarrow> u \<noteq> [] \<Longrightarrow> wc (removeChild_call env c u) = Inl e \<Longrightarrow>
   removeChild env rd c s =
     (Inl (Thrown e),
      s\<lparr>isPending := False,
        trace := trace s @ [SetIsPending True, WriteContract (removeChild_call env c u),
                           SetIsPending False]\<rparr>)"
  by (simp add: removeChild_def Let_def setIsPending_def emit_def)

lemma removeChild_refreshed:
  "\<not> unset (getContractAddress (chainId env)) \<Longrightarrow> walletClient env = Some wc \<Longrightarrow>
   userAddress env = Some u \<Longrightarrow> u \<noteq> [] \<Longrightarrow> wc (removeChild_call env c u) = Inr h \<Longrightarrow>
   rd (getPublicClient (chainId env)) (getChildren_call env u) = Inr cs \<Longrightarrow>
   removeChild env rd c s =
     (Inr h,
      s\<lparr>isPending := False, children := cs,
        trace := trace s @ [SetIsPending True, WriteContract (removeChild_call env c u),
                           ReadContract (getPublicClient (chainId env)) (getChildren_call env u),
                           SetChildren cs, SetIsPending False]\<rparr>)"
  by (simp add: removeChild_def Let_def fetchChildren_read setIsPending_def setChildren_def emit_def)

lemma removeChild_refresh_fails:
  "\<not> unset (getContractAddress (chainId env)) \<Longrightarrow> walletClient env = Some wc \<Longrightarrow>
   userAddress env = Some u \<Longrightarrow> u \<noteq> [] \<Longrightarrow> wc (removeChild_call env c u) = Inr h \<Longrightarrow>
   rd (getPublicClient (chainId env)) (getChildren_call env u) = Inl e \<Longrightarrow>
   removeChild env rd c s =
     (Inr h,
      s\<lparr>isPending := False,
        trace := trace s @ [SetIsPending True, WriteContract (removeChild_call env c u),
                           ReadContract (getPublicClient (chainId env)) (getChildren_call env u),
                           Console (ErrFetchChildren e), SetIsPending False]\<rparr>)"
  by (simp add: removeChild_def Let_def fetchChildren_read setIsPending_def emit_def)

lemma addChild_bracket:
  assumes "\<not> unset (getContractAddress (chainId env))" "walletClient env = Some wc"
    "userAddress env = Some u" "u \<noteq> []"
  shows "\<not> isPending (snd (addChild env rd c r s)) \<and>
     (\<exists>mid. trace (snd (addChild env rd c r s)) =
              trace s @ SetIsPending True # WriteContract (addChild_call env c r u) # mid
                @ [SetIsPending False] \<and>
            (\<forall>b. SetIsPending b \<notin> set mid))"
proof (cases "wc (addChild_call env c r u)")
  case (Inl e)
  from assms Inl addChild_submission_fails [where env = env and wc = wc and u = u and c = c and r = r and rd = rd and s = s and e = e]
  show ?thesis by simp
next
  case (Inr h)
  show ?thesis
  proof (cases "rd (getPublicClient (chainId env)) (getChildren_call env u)")
    case (Inl e)
    from assms Inr Inl addChild_refresh_fails [where env = env and wc = wc and u = u and c = c and r = r and rd = rd and s = s and e = e and h = h]
    show ?thesis by simp
  next
    case inner: (Inr cs)
    from assms Inr inner addChild_refreshed [where env = env and wc = wc and u = u and c = c and r = r and rd = rd and s = s and cs = cs and h = h]
    show ?thesis by simp
  qed
qed

lemma removeChild_bracket:
  assumes "\<not> unset (getContractAddress (chainId env))" "walletClient env = Some wc"
    "userAddress env = Some u" "u \<noteq> []"
  shows "\<not> isPending (snd (removeChild env rd c s)) \<and>
     (\<exists>mid. trace (snd (removeChild env rd c s)) =
              trace s @ SetIsPending True # WriteContract (removeChild_call env c u) # mid
                @ [SetIsPending False] \<and>
            (\<forall>b. SetIsPending b \<notin> set mid))"
proof (cases "wc (removeChild_call env c u)")
  case (Inl e)
  from assms Inl removeChild_submission_fails [where env = env and wc = wc and u = u and c = c and rd = rd and s = s and e = e]
  show ?thesis by simp
next
  case (Inr h)
  show ?thesis
  proof (cases "rd (getPublicClient (chainId env)) (getChildren_call env u)")
    case (Inl e)
    from assms Inr Inl removeChild_refresh_fails [where env = env and wc = wc and u = u and c = c and rd = rd and s = s and e = e and h = h]
    show ?thesis by simp
  next
    case inner: (Inr cs)
    from assms Inr inner removeChild_refreshed [where env = env and wc = wc and u = u and c = c and rd = rd and s = s and cs = cs and h = h]
    show ?thesis by simp
  qed
qed

lemma addChild_guards_keep_state:
  "unset (getContractAddress (chainId env)) \<or> walletClient env = None \<or> falsy (userAddress env)
   \<Longrightarrow> snd (addChild env rd c r s) = s"
  using addChild_guard_config [of env rd c r s] addChild_guard_wallet [of env rd c r s]
    addChild_guard_user [of env rd c r s]
  by (cases "unset (getContractAddress (chainId env))"; cases "walletClient env = None") auto

lemma removeChild_guards_keep_state:
  "unset (getContractAddress (chainId env)) \<or> walletClient env = None \<or> falsy (userAddress env)
   \<Longrightarrow> snd (removeChild env rd c s) = s"
  using removeChild_guard_config [of env rd c s] removeChild_guard_wallet [of env rd c s]
    removeChild_guard_user [of env rd c s]
  by (cases "unset (getContractAddress (chainId env))"; cases "walletClient env = None") auto

lemma addChild_returns:
  assumes "\<not> unset (getContractAddress (chainId env))" "walletClient env = Some wc"
    "userAddress env = Some u" "u \<noteq> []" "wc (addChild_call env c r u) = Inr h"
  shows "fst (addChild env rd c r s) = Inr h"
proof (cases "rd (getPublicClient (chainId env)) (getChildren_call env u)")
  case (Inl e)
  from assms Inl
    addChild_refresh_fails [where env = env and wc = wc and u = u and c = c and r = r
      and rd = rd and s = s and e = e and h = h]
  show ?thesis by simp
next
  case (Inr cs)
  from assms Inr
    addChild_refreshed [where env = env and wc = wc and u = u and c = c and r = r
      and rd = rd and s = s and cs = cs and h = h]
  show ?thesis by simp
qed

lemma removeChild_returns:
  assumes "\<not> unset (getContractAddress (chainId env))" "walletClient env = Some wc"
    "userAddress env = Some u" "u \<noteq> []" "wc (removeChild_call env c u) = Inr h"
  shows "fst (removeChild env rd c s) = Inr h"
proof (cases "rd (getPublicClient (chainId env)) (getChildren_call env u)")
  case (Inl e)
  from assms Inl
    removeChild_refresh_fails [where env = env and wc = wc and u = u and c = c
      and rd = rd and s = s and e = e and h = h]
  show ?thesis by simp
next
  case (Inr cs)
  from assms Inr
    removeChild_refreshed [where env = env and wc = wc and u = u and c = c
      and rd = rd and s = s and cs = cs and h = h]
  show ?thesis by simp
qed

lemma addChild_raises:
  assumes "fst (addChild env rd c r s) = Inl err"
  shows "(err = ConfigurationError \<and> unset (getContractAddress (chainId env))) \<or>
     (err = ConnectionError \<and> walletClient env = None) \<or>
     (err = IdentityError \<and> falsy (userAddress env)) \<or>
     (\<exists>wc u e. walletClient env = Some wc \<and> userAddress env = Some u \<and>
        wc (addChild_call env c r u) = Inl e \<and> err = Thrown e)"
proof (cases "unset (getContractAddress (chainId env))")
  case True
  with assms show ?thesis by (simp add: addChild_guard_config)
next
  case addr: False
  show ?thesis
  proof (cases "walletClient env")
    case None
    with addr assms show ?thesis by (simp add: addChild_guard_wallet)
  next
    case (Some wc)
    from falsy_cases [of "userAddress env"] show ?thesis
    proof
      assume "falsy (userAddress env)"
      with addr Some assms show ?thesis by (simp add: addChild_guard_user)
    next
      assume "\<exists>t. userAddress env = Some t \<and> t \<noteq> []"
      then obtain u where u: "userAddress env = Some u" "u \<noteq> []" by blast
      show ?thesis
      proof (cases "wc (addChild_call env c r u)")
        case (Inl e)
        from addr Some u Inl
          addChild_submission_fails [where env = env and wc = wc and u = u and c = c and r = r
            and rd = rd and s = s and e = e]
        have "fst (addChild env rd c r s) = Inl (Thrown e)" by simp
        with assms have "err = Thrown e" by simp
        with Some u Inl show ?thesis by blast
      next
        case (Inr h)
        from addr Some u Inr have "fst (addChild env rd c r s) = Inr h"
          by (rule addChild_returns)
        with assms show ?thesis by simp
      qed
    qed
  qed
qed

lemma removeChild_raises:
  assumes "fst (removeChild env rd c s) = Inl err"
  shows "(err = ConfigurationError \<and> unset (getContractAddress (chainId env))) \<or>
     (err = ConnectionError \<and> walletClient env = None) \<or>
     (err = IdentityError \<and> falsy (userAddress env)) \<or>
     (\<exists>wc u e. walletClient env = Some wc \<and> userAddress env = Some u \<and>
        wc (removeChild_call env c u) = Inl e \<and> err = Thrown e)"
proof (cases "unset (getContractAddress (chainId env))")
  case True
  with assms show ?thesis by (simp add: removeChild_guard_config)
next
  case addr: False
  show ?thesis
  proof (cases "walletClient env")
    case None
    with addr assms show ?thesis by (simp add: removeChild_guard_wallet)
  next
    case (Some wc)
    from falsy_cases [of "userAddress env"] show ?thesis
    proof
      assume "falsy (userAddress env)"
      with addr Some assms show ?thesis by (simp add: removeChild_guard_user)
    next
      assume "\<exists>t. userAddress env = Some t \<and> t \<noteq> []"
      then obtain u where u: "userAddress env = Some u" "u \<noteq> []" by blast
      show ?thesis
      proof (cases "wc (removeChild_call env c u)")
        case (Inl e)
        from addr Some u Inl
          removeChild_submission_fails [where env = env and wc = wc and u = u and c = c
            and rd = rd and s = s and e = e]
        have "fst (removeChild env rd c s) = Inl (Thrown e)" by simp
        with assms have "err = Thrown e" by simp
        with Some u Inl show ?thesis by blast
      next
        case (Inr h)
        from addr Some u Inr have "fst (removeChild env rd c s) = Inr h"
          by (rule removeChild_returns)
        with assms show ?thesis by simp
      qed
    qed
  qed
qed

lemma addChild_handle:
  assumes "\<not> unset (getContractAddress (chainId env))" "walletClient env = Some wc"
    "userAddress env = Some u" "u \<noteq> []" "fst (addChild env rd c r s) = Inr h"
  shows "wc (addChild_call env c r u) = Inr h"
proof (cases "wc (addChild_call env c r u)")
  case (Inl e)
  from assms(1-4) Inl
    addChild_submission_fails [where env = env and wc = wc and u = u and c = c and r = r
      and rd = rd and s = s and e = e]
  have "fst (addChild env rd c r s) = Inl (Thrown e)" by simp
  with assms(5) show ?thesis by simp
next
  case (Inr h')
  with assms(1-4) have "fst (addChild env rd c r s) = Inr h'" by (rule addChild_returns)
  with assms(5) Inr show ?thesis by simp
qed

lemma removeChild_handle:
  assumes "\<not> unset (getContractAddress (chainId env))" "walletClient env = Some wc"
    "userAddress env = Some u" "u \<noteq> []" "fst (removeChild env rd c s) = Inr h"
  shows "wc (removeChild_call env c u) = Inr h"
proof (cases "wc (removeChild_call env c u)")
  case (Inl e)
  from assms(1-4) Inl
    removeChild_submission_fails [where env = env and wc = wc and u = u and c = c
      and rd = rd and s = s and e = e]
  have "fst (removeChild env rd c s) = Inl (Thrown e)" by simp
  with assms(5) show ?thesis by simp
next
  case (Inr h')
  with assms(1-4) have "fst (removeChild env rd c s) = Inr h'" by (rule removeChild_returns)
  with assms(5) Inr show ?thesis by simp
qed

section \<open>The claims of the specification\<close>

text \<open>
  Claim C1. \<open>addChild\<close> and \<open>removeChild\<close> test their preconditions in a fixed order: an
  unset contract address gives \<open>ConfigurationError\<close> whatever the wallet and the account
  are; with the address set, a missing wallet client gives \<open>ConnectionError\<close> whatever the
  account is; with both present, a missing account gives \<open>IdentityError\<close>. The three errors
  are three different constructors. In each case the state that comes back is the state
  that went in, so its trace has gained no event: no call went to the network.
\<close>

theorem addChild_removeChild_precondition_order:
  "(unset (getContractAddress (chainId env)) \<longrightarrow>
      addChild env rd c r s = (Inl ConfigurationError, s) \<and>
      removeChild env rd c s = (Inl ConfigurationError, s)) \<and>
   (\<not> unset (getContractAddress (chainId env)) \<and> walletClient env = None \<longrightarrow>
      addChild env rd c r s = (Inl ConnectionError, s) \<and>
      removeChild env rd c s = (Inl ConnectionError, s)) \<and>
   (\<not> unset (getContractAddress (chainId env)) \<and> walletClient env \<noteq> None \<and>
    falsy (userAddress env) \<longrightarrow>
      addChild env rd c r s = (Inl IdentityError, s) \<and>
      removeChild env rd c s = (Inl IdentityError, s))"
  by (simp add: addChild_guard_config addChild_guard_wallet addChild_guard_user
        removeChild_guard_config removeChild_guard_wallet removeChild_guard_user)

theorem addChild_removeChild_precondition_order_witness:
  "addChild \<lparr>userAddress = None, chainId = Some 31337, walletClient = None\<rparr>
      (read_answering []) ''0xAAA'' ''admin'' idle = (Inl ConfigurationError, idle) \<and>
   removeChild \<lparr>userAddress = None, chainId = Some 11155111, walletClient = None\<rparr>
      (read_answering []) ''0xAAA'' idle = (Inl ConnectionError, idle) \<and>
   addChild \<lparr>userAddress = Some [], chainId = Some 11155111, walletClient = Some wallet_ok\<rparr>
      (read_answering []) ''0xAAA'' ''admin'' idle = (Inl IdentityError, idle) \<and>
   network_calls idle = []"
  using addChild_removeChild_precondition_order
          [where env = "\<lparr>userAddress = None, chainId = Some 31337, walletClient = None\<rparr>"
             and rd = "read_answering []" and c = "''0xAAA''" and r = "''admin''" and s = idle]
        addChild_removeChild_precondition_order
          [where env = "\<lparr>userAddress = None, chainId = Some 11155111, walletClient = None\<rparr>"
             and rd = "read_answering []" and c = "''0xAAA''" and r = "''admin''" and s = idle]
        addChild_removeChild_precondition_order
          [where env = "\<lparr>userAddress = Some [], chainId = Some 11155111,
                          walletClient = Some wallet_ok\<rparr>"
             and rd = "read_answering []" and c = "''0xAAA''" and r = "''admin''" and s = idle]
  by (simp add: unset_getContractAddress falsy_def network_calls_def idle_def)

text \<open>
  Claim C2. The four read operations never return an error. When the contract address is
  unset, or when neither an owner argument nor an authenticated account is there, each
  returns its default (the empty list, null, zero, false) and the network calls of the
  trace are those of before. When the read transport fails on the call the operation
  makes, each returns the same default.
\<close>

theorem read_operations_degrade:
  fixes rdC :: "Child list readContract" and rdA :: "Address readContract"
    and rdN :: "nat readContract" and rdB :: "bool readContract"
  shows
  "((\<exists>v. fst (fetchChildren env rdC owner s) = Inr v) \<and>
    (\<exists>v. fst (getChildByRole env rdA r owner s) = Inr v) \<and>
    (\<exists>v. fst (getChildrenCount env rdN owner s) = Inr v) \<and>
    (\<exists>v. fst (isChildOf env rdB c owner s) = Inr v)) \<and>
   (unset (getContractAddress (chainId env)) \<or> (falsy owner \<and> falsy (userAddress env)) \<longrightarrow>
      (fst (fetchChildren env rdC owner s) = Inr [] \<and>
       network_calls (snd (fetchChildren env rdC owner s)) = network_calls s) \<and>
      (fst (getChildByRole env rdA r owner s) = Inr None \<and>
       network_calls (snd (getChildByRole env rdA r owner s)) = network_calls s) \<and>
      (fst (getChildrenCount env rdN owner s) = Inr (Finite 0) \<and>
       network_calls (snd (getChildrenCount env rdN owner s)) = network_calls s) \<and>
      (fst (isChildOf env rdB c owner s) = Inr False \<and>
       network_calls (snd (isChildOf env rdB c owner s)) = network_calls s)) \<and>
   (or_else owner (userAddress env) = Some t \<longrightarrow>
      (rdC (getPublicClient (chainId env))
           \<lparr>address = getContractAddress (chainId env), functionName = ''getChildren'',
              args = [t]\<rparr> = Inl e \<longrightarrow>
       fst (fetchChildren env rdC owner s) = Inr []) \<and>
      (rdA (getPublicClient (chainId env))
           \<lparr>address = getContractAddress (chainId env), functionName = ''getChildByRole'',
              args = [t, r]\<rparr> = Inl e \<longrightarrow>
       fst (getChildByRole env rdA r owner s) = Inr None) \<and>
      (rdN (getPublicClient (chainId env))
           \<lparr>address = getContractAddress (chainId env), functionName = ''getChildrenCount'',
              args = [t]\<rparr> = Inl e \<longrightarrow>
       fst (getChildrenCount env rdN owner s) = Inr (Finite 0)) \<and>
      (rdB (getPublicClient (chainId env))
           \<lparr>address = getContractAddress (chainId env), functionName = ''isChildOf'',
              args = [t, c]\<rparr> = Inl e \<longrightarrow>
       fst (isChildOf env rdB c owner s) = Inr False))"
proof (intro conjI impI)
  assume "unset (getContractAddress (chainId env)) \<or> (falsy owner \<and> falsy (userAddress env))"
  then have short:
    "unset (getContractAddress (chainId env)) \<or> falsy (or_else owner (userAddress env))"
    by (simp add: falsy_or_else)
  from short show "fst (fetchChildren env rdC owner s) = Inr []"
    by (simp add: fetchChildren_short)
  from short show "network_calls (snd (fetchChildren env rdC owner s)) = network_calls s"
    by (simp add: fetchChildren_short)
  from short show "fst (getChildByRole env rdA r owner s) = Inr None"
    by (simp add: getChildByRole_short)
  from short show "network_calls (snd (getChildByRole env rdA r owner s)) = network_calls s"
    by (simp add: getChildByRole_short)
  from short show "fst (getChildrenCount env rdN owner s) = Inr (Finite 0)"
    by (simp add: getChildrenCount_short)
  from short show "network_calls (snd (getChildrenCount env rdN owner s)) = network_calls s"
    by (simp add: getChildrenCount_short)
  from short show "fst (isChildOf env rdB c owner s) = Inr False"
    by (simp add: isChildOf_short)
  from short show "network_calls (snd (isChildOf env rdB c owner s)) = network_calls s"
    by (simp add: isChildOf_short)
qed (simp_all only: fetchChildren_never_raises getChildByRole_never_raises
       getChildrenCount_never_raises isChildOf_never_raises
       fetchChildren_failed getChildByRole_failed getChildrenCount_failed isChildOf_failed)

theorem read_operations_degrade_witness:
  "unset (getContractAddress (chainId (scenario 31337))) \<and>
   fst (fetchChildren (scenario 31337) (read_answering [\<lparr>childEOA = ''0xAAA'', role = ''admin''\<rparr>])
          None idle) = Inr [] \<and>
   fst (isChildOf (scenario 31337) (read_answering True) ''0xAAA'' None idle) = Inr False \<and>
   falsy (userAddress ((scenario 11155111)\<lparr>userAddress := None\<rparr>)) \<and>
   fst (getChildByRole ((scenario 11155111)\<lparr>userAddress := None\<rparr>) (read_answering ''0xAAA'')
          ''admin'' None idle) = Inr None \<and>
   or_else None (userAddress (scenario 11155111)) = Some ''0xU'' \<and>
   fst (getChildrenCount (scenario 11155111) read_failing None idle) = Inr (Finite 0) \<and>
   fst (getChildByRole (scenario 11155111) read_failing ''admin'' None idle) = Inr None"
  using read_operations_degrade
          [where env = "scenario 31337" and owner = None and s = idle
             and rdC = "read_answering [\<lparr>childEOA = ''0xAAA'', role = ''admin''\<rparr>]"
             and rdB = "read_answering True" and c = "''0xAAA''"]
        read_operations_degrade
          [where env = "(scenario 11155111)\<lparr>userAddress := None\<rparr>" and owner = None
             and s = idle and rdA = "read_answering ''0xAAA''" and r = "''admin''"]
        read_operations_degrade
          [where env = "scenario 11155111" and owner = None and s = idle
             and rdN = read_failing and rdA = read_failing and r = "''admin''"
             and t = "''0xU''" and e = "''timeout''"]
  by (simp add: scenario_def unset_getContractAddress read_failing_def falsy_def)

text \<open>
  Claim C3. When the three preconditions hold, \<open>addChild\<close> and \<open>removeChild\<close> set the
  pending flag right before the submission, do not touch it again until the end, and
  finish by resetting it, whatever the wallet and the read transport answer: the state
  that comes back is never pending. When a precondition fails the state comes back as
  it went in, so the flag is not set and stays as it was.
\<close>

theorem pending_set_then_always_reset:
  "(\<not> unset (getContractAddress (chainId env)) \<and> walletClient env = Some wc \<and>
    userAddress env = Some u \<and> u \<noteq> [] \<longrightarrow>
      (\<not> isPending (snd (addChild env rd c r s)) \<and>
       (\<exists>mid. trace (snd (addChild env rd c r s)) =
                trace s @ SetIsPending True # WriteContract (addChild_call env c r u) # mid
                  @ [SetIsPending False] \<and>
              (\<forall>b. SetIsPending b \<notin> set mid))) \<and>
      (\<not> isPending (snd (removeChild env rd c s)) \<and>
       (\<exists>mid. trace (snd (removeChild env rd c s)) =
                trace s @ SetIsPending True # WriteContract (removeChild_call env c u) # mid
                  @ [SetIsPending False] \<and>
              (\<forall>b. SetIsPending b \<notin> set mid)))) \<and>
   (unset (getContractAddress (chainId env)) \<or> walletClient env = None \<or>
    falsy (userAddress env) \<longrightarrow>
      snd (addChild env rd c r s) = s \<and> snd (removeChild env rd c s) = s)"
proof (intro conjI impI)
  assume "unset (getContractAddress (chainId env)) \<or> walletClient env = None \<or>
    falsy (userAddress env)"
  then show "snd (addChild env rd c r s) = s" "snd (removeChild env rd c s) = s"
    by (rule addChild_guards_keep_state, rule removeChild_guards_keep_state)
next
  assume g: "\<not> unset (getContractAddress (chainId env)) \<and> walletClient env = Some wc \<and>
    userAddress env = Some u \<and> u \<noteq> []"
  then show "\<not> isPending (snd (addChild env rd c r s))"
    using addChild_bracket [of env wc u rd c r s] by blast
  from g show "\<exists>mid. trace (snd (addChild env rd c r s)) =
                trace s @ SetIsPending True # WriteContract (addChild_call env c r u) # mid
                  @ [SetIsPending False] \<and>
              (\<forall>b. SetIsPending b \<notin> set mid)"
    using addChild_bracket [of env wc u rd c r s] by blast
  from g show "\<not> isPending (snd (removeChild env rd c s))"
    using removeChild_bracket [of env wc u rd c s] by blast
  from g show "\<exists>mid. trace (snd (removeChild env rd c s)) =
                trace s @ SetIsPending True # WriteContract (removeChild_call env c u) # mid
                  @ [SetIsPending False] \<and>
              (\<forall>b. SetIsPending b \<notin> set mid)"
    using removeChild_bracket [of env wc u rd c s] by blast
qed

theorem pending_set_then_always_reset_witness:
  "\<not> isPending (snd (addChild (scenario 11155111)
        (read_answering [\<lparr>childEOA = ''0xAAA'', role = ''admin''\<rparr>]) ''0xAAA'' ''admin'' idle)) \<and>
   \<not> isPending (snd (removeChild (scenario 11155111) read_failing ''0xAAA'' idle)) \<and>
   \<not> isPending (snd (addChild ((scenario 11155111)\<lparr>walletClient := Some wallet_failing\<rparr>)
        read_failing ''0xAAA'' ''admin'' idle)) \<and>
   snd (addChild (scenario 31337) read_failing ''0xAAA'' ''admin'' idle) = idle \<and>
   snd (removeChild ((scenario 11155111)\<lparr>walletClient := None\<rparr>) read_failing ''0xAAA'' idle)
     = idle"
proof -
  have pass:
    "\<not> unset (getContractAddress (chainId (scenario 11155111))) \<and>
     walletClient (scenario 11155111) = Some wallet_ok \<and>
     userAddress (scenario 11155111) = Some ''0xU'' \<and> ''0xU'' \<noteq> []"
    by (simp add: unset_getContractAddress scenario_def)
  have pass':
    "\<not> unset (getContractAddress
          (chainId ((scenario 11155111)\<lparr>walletClient := Some wallet_failing\<rparr>))) \<and>
     walletClient ((scenario 11155111)\<lparr>walletClient := Some wallet_failing\<rparr>)
       = Some wallet_failing \<and>
     userAddress ((scenario 11155111)\<lparr>walletClient := Some wallet_failing\<rparr>) = Some ''0xU'' \<and>
     ''0xU'' \<noteq> []"
    by (simp add: unset_getContractAddress scenario_def)
  have stop: "unset (getContractAddress (chainId (scenario 31337)))"
    by (simp add: unset_getContractAddress scenario_def)
  have stop': "walletClient ((scenario 11155111)\<lparr>walletClient := None\<rparr>) = None"
    by simp
  from pass
    pending_set_then_always_reset
      [where env = "scenario 11155111" and wc = wallet_ok and u = "''0xU''"
         and rd = "read_answering [\<lparr>childEOA = ''0xAAA'', role = ''admin''\<rparr>]"
         and c = "''0xAAA''" and r = "''admin''" and s = idle]
  have a: "\<not> isPending (snd (addChild (scenario 11155111)
        (read_answering [\<lparr>childEOA = ''0xAAA'', role = ''admin''\<rparr>]) ''0xAAA'' ''admin'' idle))"
    by blast
  from pass
    pending_set_then_always_reset
      [where env = "scenario 11155111" and wc = wallet_ok and u = "''0xU''"
         and rd = read_failing and c = "''0xAAA''" and s = idle]
  have b: "\<not> isPending (snd (removeChild (scenario 11155111) read_failing ''0xAAA'' idle))"
    by blast
  from pass'
    pending_set_then_always_reset
      [where env = "(scenario 11155111)\<lparr>walletClient := Some wallet_failing\<rparr>"
         and wc = wallet_failing and u = "''0xU''"
         and rd = read_failing and c = "''0xAAA''" and r = "''admin''" and s = idle]
  have c: "\<not> isPending (snd (addChild ((scenario 11155111)\<lparr>walletClient := Some wallet_failing\<rparr>)
        read_failing ''0xAAA'' ''admin'' idle))"
    by blast
  from stop
    pending_set_then_always_reset
      [where env = "scenario 31337" and rd = read_failing and c = "''0xAAA''"
         and r = "''admin''" and s = idle]
  have d: "snd (addChild (scenario 31337) read_failing ''0xAAA'' ''admin'' idle) = idle"
    by blast
  from stop'
    pending_set_then_always_reset
      [where env = "(scenario 11155111)\<lparr>walletClient := None\<rparr>" and rd = read_failing
         and c = "''0xAAA''" and s = idle]
  have e: "snd (removeChild ((scenario 11155111)\<lparr>walletClient := None\<rparr>) read_failing
        ''0xAAA'' idle) = idle"
    by blast
  from a b c d e show ?thesis by blast
qed

text \<open>
  Claim C4. An error that leaves \<open>addChild\<close> or \<open>removeChild\<close> is the error of one of the
  three guards, with that guard failing, or it is the exception the wallet client threw
  on the submitted call. Once the preconditions hold and the submission succeeds, the
  call returns the transaction hash for every read transport, a failing one included.
\<close>

theorem writers_raise_only_from_guards_or_submission:
  "(fst (addChild env rd c r s) = Inl err \<longrightarrow>
      (err = ConfigurationError \<and> unset (getContractAddress (chainId env))) \<or>
      (err = ConnectionError \<and> walletClient env = None) \<or>
      (err = IdentityError \<and> falsy (userAddress env)) \<or>
      (\<exists>wc u e. walletClient env = Some wc \<and> userAddress env = Some u \<and>
         wc (addChild_call env c r u) = Inl e \<and> err = Thrown e)) \<and>
   (fst (removeChild env rd c s) = Inl err \<longrightarrow>
      (err = ConfigurationError \<and> unset (getContractAddress (chainId env))) \<or>
      (err = ConnectionError \<and> walletClient env = None) \<or>
      (err = IdentityError \<and> falsy (userAddress env)) \<or>
      (\<exists>wc u e. walletClient env = Some wc \<and> userAddress env = Some u \<and>
         wc (removeChild_call env c u) = Inl e \<and> err = Thrown e)) \<and>
   (\<not> unset (getContractAddress (chainId env)) \<and> walletClient env = Some w \<and>
    userAddress env = Some a \<and> a \<noteq> [] \<longrightarrow>
      (w (addChild_call env c r a) = Inr h \<longrightarrow> fst (addChild env rd c r s) = Inr h) \<and>
      (w (removeChild_call env c a) = Inr h \<longrightarrow> fst (removeChild env rd c s) = Inr h))"
proof (intro conjI impI)
  assume "fst (addChild env rd c r s) = Inl err"
  then show "(err = ConfigurationError \<and> unset (getContractAddress (chainId env))) \<or>
      (err = ConnectionError \<and> walletClient env = None) \<or>
      (err = IdentityError \<and> falsy (userAddress env)) \<or>
      (\<exists>wc u e. walletClient env = Some wc \<and> userAddress env = Some u \<and>
         wc (addChild_call env c r u) = Inl e \<and> err = Thrown e)"
    by (rule addChild_raises)
next
  assume "fst (removeChild env rd c s) = Inl err"
  then show "(err = ConfigurationError \<and> unset (getContractAddress (chainId env))) \<or>
      (err = ConnectionError \<and> walletClient env = None) \<or>
      (err = IdentityError \<and> falsy (userAddress env)) \<or>
      (\<exists>wc u e. walletClient env = Some wc \<and> userAddress env = Some u \<and>
         wc (removeChild_call env c u) = Inl e \<and> err = Thrown e)"
    by (rule removeChild_raises)
next
  assume g: "\<not> unset (getContractAddress (chainId env)) \<and> walletClient env = Some w \<and>
    userAddress env = Some a \<and> a \<noteq> []"
    and ok: "w (addChild_call env c r a) = Inr h"
  from g ok show "fst (addChild env rd c r s) = Inr h"
    using addChild_returns [where env = env and wc = w and u = a and c = c and r = r
      and h = h and rd = rd and s = s] by blast
next
  assume g: "\<not> unset (getContractAddress (chainId env)) \<and> walletClient env = Some w \<and>
    userAddress env = Some a \<and> a \<noteq> []"
    and ok: "w (removeChild_call env c a) = Inr h"
  from g ok show "fst (removeChild env rd c s) = Inr h"
    using removeChild_returns [where env = env and wc = w and u = a and c = c
      and h = h and rd = rd and s = s] by blast
qed

theorem writers_raise_only_from_guards_or_submission_witness:
  "fst (addChild ((scenario 11155111)\<lparr>walletClient := Some wallet_failing\<rparr>)
          (read_answering []) ''0xAAA'' ''admin'' idle)
     = Inl (Thrown ''user rejected the request'') \<and>
   (\<exists>wc u e. walletClient ((scenario 11155111)\<lparr>walletClient := Some wallet_failing\<rparr>) = Some wc \<and>
      userAddress ((scenario 11155111)\<lparr>walletClient := Some wallet_failing\<rparr>) = Some u \<and>
      wc (addChild_call ((scenario 11155111)\<lparr>walletClient := Some wallet_failing\<rparr>)
            ''0xAAA'' ''admin'' u) = Inl e \<and>
      Thrown ''user rejected the request'' = Thrown e) \<and>
   fst (addChild (scenario 11155111) read_failing ''0xAAA'' ''admin'' idle) = Inr ''0xTX1'' \<and>
   fst (removeChild (scenario 11155111) read_failing ''0xAAA'' idle) = Inr ''0xTX1''"
proof -
  have raised:
    "fst (addChild ((scenario 11155111)\<lparr>walletClient := Some wallet_failing\<rparr>)
          (read_answering []) ''0xAAA'' ''admin'' idle)
     = Inl (Thrown ''user rejected the request'')"
    by (simp add: addChild_def Let_def scenario_def wallet_failing_def unset_getContractAddress)
  have pass:
    "\<not> unset (getContractAddress (chainId (scenario 11155111))) \<and>
     walletClient (scenario 11155111) = Some wallet_ok \<and>
     userAddress (scenario 11155111) = Some ''0xU'' \<and> ''0xU'' \<noteq> []"
    by (simp add: unset_getContractAddress scenario_def)
  have sent:
    "wallet_ok (addChild_call (scenario 11155111) ''0xAAA'' ''admin'' ''0xU'') = Inr ''0xTX1''"
    "wallet_ok (removeChild_call (scenario 11155111) ''0xAAA'' ''0xU'') = Inr ''0xTX1''"
    by (simp_all add: wallet_ok_def)
  have not_a_guard:
    "\<not> unset (getContractAddress
          (chainId ((scenario 11155111)\<lparr>walletClient := Some wallet_failing\<rparr>)))"
    "walletClient ((scenario 11155111)\<lparr>walletClient := Some wallet_failing\<rparr>) \<noteq> None"
    "\<not> falsy (userAddress ((scenario 11155111)\<lparr>walletClient := Some wallet_failing\<rparr>))"
    by (simp_all add: unset_getContractAddress scenario_def falsy_def)
  from raised not_a_guard
    writers_raise_only_from_guards_or_submission
      [where env = "(scenario 11155111)\<lparr>walletClient := Some wallet_failing\<rparr>"
         and rd = "read_answering []" and c = "''0xAAA''" and r = "''admin''" and s = idle
         and err = "Thrown ''user rejected the request''"]
  have first: "\<exists>wc u e.
      walletClient ((scenario 11155111)\<lparr>walletClient := Some wallet_failing\<rparr>) = Some wc \<and>
      userAddress ((scenario 11155111)\<lparr>walletClient := Some wallet_failing\<rparr>) = Some u \<and>
      wc (addChild_call ((scenario 11155111)\<lparr>walletClient := Some wallet_failing\<rparr>)
            ''0xAAA'' ''admin'' u) = Inl e \<and>
      Thrown ''user rejected the request'' = Thrown e"
    by blast
  from pass sent
    writers_raise_only_from_guards_or_submission
      [where env = "scenario 11155111" and rd = read_failing and c = "''0xAAA''"
         and r = "''admin''" and s = idle and w = wallet_ok and a = "''0xU''"
         and h = "''0xTX1''"]
  have second:
    "fst (addChild (scenario 11155111) read_failing ''0xAAA'' ''admin'' idle) = Inr ''0xTX1'' \<and>
     fst (removeChild (scenario 11155111) read_failing ''0xAAA'' idle) = Inr ''0xTX1''"
    by blast
  from raised first second show ?thesis by blast
qed

text \<open>
  Claim C5, as amended. With the preconditions satisfied, \<open>addChild\<close> and \<open>removeChild\<close>
  return a hash exactly when the wallet client returned that hash for the submitted call.
  The submission comes first, then the read of the children of the authenticated account,
  then the return. When that read succeeds, \<open>setChildren\<close> is called with the list just
  read, after the read and before the return. When it fails, the hash still comes back
  and \<open>setChildren\<close> is not called. The statement is about the calls made, in their
  order; it says nothing of the render in which the hook shows the new list.
\<close>

theorem submit_then_refresh_then_handle:
  "\<not> unset (getContractAddress (chainId env)) \<and> walletClient env = Some wc \<and>
   userAddress env = Some u \<and> u \<noteq> [] \<longrightarrow>
     (fst (addChild env rd c r s) = Inr h \<longleftrightarrow> wc (addChild_call env c r u) = Inr h) \<and>
     (fst (removeChild env rd c s) = Inr h \<longleftrightarrow> wc (removeChild_call env c u) = Inr h) \<and>
     (rd (getPublicClient (chainId env)) (getChildren_call env u) = Inr cs \<longrightarrow>
        (wc (addChild_call env c r u) = Inr h \<longrightarrow>
           fst (addChild env rd c r s) = Inr h \<and>
           trace (snd (addChild env rd c r s)) =
             trace s @
               [SetIsPending True, WriteContract (addChild_call env c r u),
                ReadContract (getPublicClient (chainId env)) (getChildren_call env u),
                SetChildren cs, SetIsPending False]) \<and>
        (wc (removeChild_call env c u) = Inr h \<longrightarrow>
           fst (removeChild env rd c s) = Inr h \<and>
           trace (snd (removeChild env rd c s)) =
             trace s @
               [SetIsPending True, WriteContract (removeChild_call env c u),
                ReadContract (getPublicClient (chainId env)) (getChildren_call env u),
                SetChildren cs, SetIsPending False])) \<and>
     (rd (getPublicClient (chainId env)) (getChildren_call env u) = Inl e \<longrightarrow>
        (wc (addChild_call env c r u) = Inr h \<longrightarrow>
           fst (addChild env rd c r s) = Inr h \<and>
           trace (snd (addChild env rd c r s)) =
             trace s @
               [SetIsPending True, WriteContract (addChild_call env c r u),
                ReadContract (getPublicClient (chainId env)) (getChildren_call env u),
                Console (ErrFetchChildren e), SetIsPending False]) \<and>
        (wc (removeChild_call env c u) = Inr h \<longrightarrow>
           fst (removeChild env rd c s) = Inr h \<and>
           trace (snd (removeChild env rd c s)) =
             trace s @
               [SetIsPending True, WriteContract (removeChild_call env c u),
                ReadContract (getPublicClient (chainId env)) (getChildren_call env u),
                Console (ErrFetchChildren e), SetIsPending False]))"
proof (intro impI)
  assume g: "\<not> unset (getContractAddress (chainId env)) \<and> walletClient env = Some wc \<and>
    userAddress env = Some u \<and> u \<noteq> []"
  then have g1: "\<not> unset (getContractAddress (chainId env))" and g2: "walletClient env = Some wc"
    and g3: "userAddress env = Some u" and g4: "u \<noteq> []"
    by simp_all
  have add_handle:
    "fst (addChild env rd c r s) = Inr h \<longleftrightarrow> wc (addChild_call env c r u) = Inr h"
    using g1 g2 g3 g4
      addChild_handle [where env = env and wc = wc and u = u and c = c and r = r and h = h
        and rd = rd and s = s]
      addChild_returns [where env = env and wc = wc and u = u and c = c and r = r and h = h
        and rd = rd and s = s]
    by blast
  have remove_handle:
    "fst (removeChild env rd c s) = Inr h \<longleftrightarrow> wc (removeChild_call env c u) = Inr h"
    using g1 g2 g3 g4
      removeChild_handle [where env = env and wc = wc and u = u and c = c and h = h
        and rd = rd and s = s]
      removeChild_returns [where env = env and wc = wc and u = u and c = c and h = h
        and rd = rd and s = s]
    by blast
  have add_ok:
    "trace (snd (addChild env rd c r s)) =
       trace s @
         [SetIsPending True, WriteContract (addChild_call env c r u),
          ReadContract (getPublicClient (chainId env)) (getChildren_call env u),
          SetChildren cs, SetIsPending False]"
    if "rd (getPublicClient (chainId env)) (getChildren_call env u) = Inr cs"
      and "wc (addChild_call env c r u) = Inr h"
    using that g1 g2 g3 g4
      addChild_refreshed [where env = env and wc = wc and u = u and c = c and r = r and h = h
        and rd = rd and s = s and cs = cs]
    by simp
  have remove_ok:
    "trace (snd (removeChild env rd c s)) =
       trace s @
         [SetIsPending True, WriteContract (removeChild_call env c u),
          ReadContract (getPublicClient (chainId env)) (getChildren_call env u),
          SetChildren cs, SetIsPending False]"
    if "rd (getPublicClient (chainId env)) (getChildren_call env u) = Inr cs"
      and "wc (removeChild_call env c u) = Inr h"
    using that g1 g2 g3 g4
      removeChild_refreshed [where env = env and wc = wc and u = u and c = c and h = h
        and rd = rd and s = s and cs = cs]
    by simp
  have add_failed:
    "trace (snd (addChild env rd c r s)) =
       trace s @
         [SetIsPending True, WriteContract (addChild_call env c r u),
          ReadContract (getPublicClient (chainId env)) (getChildren_call env u),
          Console (ErrFetchChildren e), SetIsPending False]"
    if "rd (getPublicClient (chainId env)) (getChildren_call env u) = Inl e"
      and "wc (addChild_call env c r u) = Inr h"
    using that g1 g2 g3 g4
      addChild_refresh_fails [where env = env and wc = wc and u = u and c = c and r = r
        and h = h and rd = rd and s = s and e = e]
    by simp
  have remove_failed:
    "trace (snd (removeChild env rd c s)) =
       trace s @
         [SetIsPending True, WriteContract (removeChild_call env c u),
          ReadContract (getPublicClient (chainId env)) (getChildren_call env u),
          Console (ErrFetchChildren e), SetIsPending False]"
    if "rd (getPublicClient (chainId env)) (getChildren_call env u) = Inl e"
      and "wc (removeChild_call env c u) = Inr h"
    using that g1 g2 g3 g4
      removeChild_refresh_fails [where env = env and wc = wc and u = u and c = c and h = h
        and rd = rd and s = s and e = e]
    by simp
  from add_handle remove_handle add_ok remove_ok add_failed remove_failed
  show "(fst (addChild env rd c r s) = Inr h \<longleftrightarrow> wc (addChild_call env c r u) = Inr h) \<and>
     (fst (removeChild env rd c s) = Inr h \<longleftrightarrow> wc (removeChild_call env c u) = Inr h) \<and>
     (rd (getPublicClient (chainId env)) (getChildren_call env u) = Inr cs \<longrightarrow>
        (wc (addChild_call env c r u) = Inr h \<longrightarrow>
           fst (addChild env rd c r s) = Inr h \<and>
           trace (snd (addChild env rd c r s)) =
             trace s @
               [SetIsPending True, WriteContract (addChild_call env c r u),
                ReadContract (getPublicClient (chainId env)) (getChildren_call env u),
                SetChildren cs, SetIsPending False]) \<and>
        (wc (removeChild_call env c u) = Inr h \<longrightarrow>
           fst (removeChild env rd c s) = Inr h \<and>
           trace (snd (removeChild env rd c s)) =
             trace s @
               [SetIsPending True, WriteContract (removeChild_call env c u),
                ReadContract (getPublicClient (chainId env)) (getChildren_call env u),
                SetChildren cs, SetIsPending False])) \<and>
     (rd (getPublicClient (chainId env)) (getChildren_call env u) = Inl e \<longrightarrow>
        (wc (addChild_call env c r u) = Inr h \<longrightarrow>
           fst (addChild env rd c r s) = Inr h \<and>
           trace (snd (addChild env rd c r s)) =
             trace s @
               [SetIsPending True, WriteContract (addChild_call env c r u),
                ReadContract (getPublicClient (chainId env)) (getChildren_call env u),
                Console (ErrFetchChildren e), SetIsPending False]) \<and>
        (wc (removeChild_call env c u) = Inr h \<longrightarrow>
           fst (removeChild env rd c s) = Inr h \<and>
           trace (snd (removeChild env rd c s)) =
             trace s @
               [SetIsPending True, WriteContract (removeChild_call env c u),
                ReadContract (getPublicClient (chainId env)) (getChildren_call env u),
                Console (ErrFetchChildren e), SetIsPending False]))"
    by blast
qed

theorem submit_then_refresh_then_handle_witness:
  "fst (addChild (scenario 11155111) (read_answering [\<lparr>childEOA = ''0xAAA'', role = ''admin''\<rparr>])
       ''0xAAA'' ''admin'' idle) = Inr ''0xTX1'' \<and>
   trace (snd (addChild (scenario 11155111)
       (read_answering [\<lparr>childEOA = ''0xAAA'', role = ''admin''\<rparr>]) ''0xAAA'' ''admin'' idle)) =
     [SetIsPending True,
      WriteContract
        \<lparr>address = ''0xB1Db2211cB3bFAe1fB676104cA21f236F832435D'',
           functionName = ''addChild'', args = [''0xAAA'', ''admin''],
           account = ''0xU'', chain = sepolia\<rparr>,
      ReadContract (createPublicClient sepolia (http None))
        \<lparr>address = ''0xB1Db2211cB3bFAe1fB676104cA21f236F832435D'',
           functionName = ''getChildren'', args = [''0xU'']\<rparr>,
      SetChildren [\<lparr>childEOA = ''0xAAA'', role = ''admin''\<rparr>],
      SetIsPending False]"
proof -
  have pass:
    "\<not> unset (getContractAddress (chainId (scenario 11155111))) \<and>
     walletClient (scenario 11155111) = Some wallet_ok \<and>
     userAddress (scenario 11155111) = Some ''0xU'' \<and> ''0xU'' \<noteq> []"
    by (simp add: unset_getContractAddress scenario_def)
  have sent:
    "wallet_ok (addChild_call (scenario 11155111) ''0xAAA'' ''admin'' ''0xU'') = Inr ''0xTX1''"
    by (simp add: wallet_ok_def)
  have answered:
    "read_answering [\<lparr>childEOA = ''0xAAA'', role = ''admin''\<rparr>]
       (getPublicClient (chainId (scenario 11155111)))
       (getChildren_call (scenario 11155111) ''0xU'')
     = Inr [\<lparr>childEOA = ''0xAAA'', role = ''admin''\<rparr>]"
    by (simp add: read_answering_def)
  from pass sent answered
    submit_then_refresh_then_handle
      [where env = "scenario 11155111" and wc = wallet_ok and u = "''0xU''"
         and rd = "read_answering [\<lparr>childEOA = ''0xAAA'', role = ''admin''\<rparr>]"
         and c = "''0xAAA''" and r = "''admin''" and s = idle and h = "''0xTX1''"
         and cs = "[\<lparr>childEOA = ''0xAAA'', role = ''admin''\<rparr>]"]
  have "fst (addChild (scenario 11155111)
         (read_answering [\<lparr>childEOA = ''0xAAA'', role = ''admin''\<rparr>]) ''0xAAA'' ''admin'' idle)
       = Inr ''0xTX1'' \<and>
     trace (snd (addChild (scenario 11155111)
         (read_answering [\<lparr>childEOA = ''0xAAA'', role = ''admin''\<rparr>]) ''0xAAA'' ''admin'' idle)) =
       trace idle @
         [SetIsPending True,
          WriteContract (addChild_call (scenario 11155111) ''0xAAA'' ''admin'' ''0xU''),
          ReadContract (getPublicClient (chainId (scenario 11155111)))
            (getChildren_call (scenario 11155111) ''0xU''),
          SetChildren [\<lparr>childEOA = ''0xAAA'', role = ''admin''\<rparr>], SetIsPending False]"
    by blast
  then show ?thesis
    by (simp add: scenario_def idle_def getContractAddress_def getPublicClient_def)
qed

text \<open>
  The claim C5 as first written promises the refreshed children to every caller that
  receives the hash. With a wallet that accepts the submission and a read transport that
  fails, the hash is returned, no \<open>SetChildren\<close> happened, and the stored children are
  still the old ones.
\<close>

theorem addChild_returns_with_stale_children:
  "addChild (scenario 11155111) read_failing ''0xAAA'' ''admin''
     \<lparr>isPending = False, children = [\<lparr>childEOA = ''0xOLD'', role = ''viewer''\<rparr>], trace = []\<rparr> =
   (Inr ''0xTX1'',
    \<lparr>isPending = False, children = [\<lparr>childEOA = ''0xOLD'', role = ''viewer''\<rparr>],
       trace =
         [SetIsPending True,
          WriteContract
            \<lparr>address = ''0xB1Db2211cB3bFAe1fB676104cA21f236F832435D'',
               functionName = ''addChild'', args = [''0xAAA'', ''admin''],
               account = ''0xU'', chain = sepolia\<rparr>,
          ReadContract (createPublicClient sepolia (http None))
            \<lparr>address = ''0xB1Db2211cB3bFAe1fB676104cA21f236F832435D'',
               functionName = ''getChildren'', args = [''0xU'']\<rparr>,
          Console (ErrFetchChildren ''timeout''),
          SetIsPending False]\<rparr>)"
  by (simp add: addChild_def fetchChildren_def Let_def unset_def or_else_def falsy_def
        getContractAddress_def getPublicClient_def scenario_def wallet_ok_def read_failing_def
        setIsPending_def emit_def)

text \<open>
  Claim C6. When the lookup by role reaches the contract and the contract answers with an
  address, \<open>getChildByRole\<close> returns null exactly when that address is the zero address,
  and the address itself otherwise.
\<close>

theorem getChildByRole_maps_zero_to_null:
  "\<not> unset (getContractAddress (chainId env)) \<and> or_else owner (userAddress env) = Some t \<and>
   t \<noteq> [] \<and>
   rd (getPublicClient (chainId env))
      \<lparr>address = getContractAddress (chainId env), functionName = ''getChildByRole'',
         args = [t, r]\<rparr> = Inr a \<longrightarrow>
   fst (getChildByRole env rd r owner s) = Inr (if a = zero_address then None else Some a) \<and>
   (fst (getChildByRole env rd r owner s) = Inr None \<longleftrightarrow> a = zero_address)"
  by (simp add: getChildByRole_def Let_def zero_address_def)

theorem getChildByRole_maps_zero_to_null_witness:
  "fst (getChildByRole (scenario 11155111) (read_answering zero_address) ''admin'' None idle)
     = Inr None \<and>
   fst (getChildByRole (scenario 11155111) (read_answering ''0xAAA'') ''admin'' None idle)
     = Inr (Some ''0xAAA'')"
  using getChildByRole_maps_zero_to_null
          [where env = "scenario 11155111" and owner = None and t = "''0xU''"
             and rd = "read_answering zero_address" and r = "''admin''" and a = zero_address
             and s = idle]
        getChildByRole_maps_zero_to_null
          [where env = "scenario 11155111" and owner = None and t = "''0xU''"
             and rd = "read_answering ''0xAAA''" and r = "''admin''" and a = "''0xAAA''"
             and s = idle]
  by (simp add: unset_getContractAddress scenario_def read_answering_def zero_address_def)

text \<open>
  Claim C7. \<open>getContractAddress\<close> is a function of the network id alone and has a value
  for every id: outside the two recognised ids, and for an absent id, the value is the
  zero address; the two recognised ids have their configured addresses.
\<close>

theorem getContractAddress_total:
  "(cid \<noteq> Some 11155111 \<and> cid \<noteq> Some 31337 \<longrightarrow> getContractAddress cid = zero_address) \<and>
   getContractAddress (Some 11155111) = ''0xB1Db2211cB3bFAe1fB676104cA21f236F832435D'' \<and>
   getContractAddress (Some 31337) = zero_address"
  by (simp add: getContractAddress_def zero_address_def)

theorem getContractAddress_total_witness:
  "getContractAddress (Some 1) = zero_address \<and> getContractAddress None = zero_address"
  using getContractAddress_total [of "Some 1"] getContractAddress_total [of None] by simp

text \<open>
  Claim C8, as amended. \<open>getPublicClient\<close> has a value for every network id: the local id
  31337 resolves to the Hardhat chain on the loopback endpoint, and every other id, or none,
  resolves to one and the same client, the Sepolia chain on its default endpoint, whatever
  the id is.
\<close>

theorem getPublicClient_total:
  "getPublicClient (Some 31337) =
     createPublicClient hardhat (http (Some ''http://127.0.0.1:8545'')) \<and>
   (cid \<noteq> Some 31337 \<longrightarrow> getPublicClient cid = createPublicClient sepolia (http None))"
  by (simp add: getPublicClient_def)

theorem getPublicClient_total_witness:
  "getPublicClient (Some 1) = createPublicClient sepolia (http None) \<and>
   getPublicClient None = createPublicClient sepolia (http None)"
  using getPublicClient_total [of "Some 1"] getPublicClient_total [of None] by simp

text \<open>
  The claim C8 as first written has the endpoint of the other networks depend on the
  network id. It does not: the id 1 and the id 11155111 resolve to the same client.
\<close>

theorem getPublicClient_ignores_other_ids:
  "getPublicClient (Some 1) = getPublicClient (Some 11155111)"
  by (simp add: getPublicClient_def)

text \<open>
  Claim C9. When the count query reaches the contract and the contract answers with a
  count, \<open>getChildrenCount\<close> returns that count converted by \<open>Number\<close>; for a count of at
  most \<open>2 ^ 53\<close> the conversion is exact.
\<close>

theorem getChildrenCount_converts_exactly:
  "\<not> unset (getContractAddress (chainId env)) \<and> or_else owner (userAddress env) = Some t \<and>
   t \<noteq> [] \<and>
   rd (getPublicClient (chainId env))
      \<lparr>address = getContractAddress (chainId env), functionName = ''getChildrenCount'',
         args = [t]\<rparr> = Inr n \<longrightarrow>
   fst (getChildrenCount env rd owner s) = Inr (Number n) \<and>
   (n \<le> 2 ^ 53 \<longrightarrow> fst (getChildrenCount env rd owner s) = Inr (Finite n))"
  by (simp add: getChildrenCount_def Let_def Number_exact)

theorem getChildrenCount_converts_exactly_witness:
  "fst (getChildrenCount (scenario 11155111) (read_answering 9007199254740991) None idle)
     = Inr (Finite 9007199254740991)"
proof -
  have guards:
    "\<not> unset (getContractAddress (chainId (scenario 11155111))) \<and>
     or_else None (userAddress (scenario 11155111)) = Some ''0xU'' \<and> ''0xU'' \<noteq> [] \<and>
     read_answering 9007199254740991 (getPublicClient (chainId (scenario 11155111)))
       \<lparr>address = getContractAddress (chainId (scenario 11155111)),
          functionName = ''getChildrenCount'', args = [''0xU'']\<rparr> = Inr (9007199254740991::nat)"
    by (simp add: unset_getContractAddress scenario_def read_answering_def)
  have small: "(9007199254740991::nat) \<le> 2 ^ 53" by simp
  from guards small
    getChildrenCount_converts_exactly
      [where env = "scenario 11155111" and owner = None and t = "''0xU''"
         and rd = "read_answering 9007199254740991" and n = 9007199254740991 and s = idle]
  show ?thesis by blast
qed

text \<open>
  Claim C10. When the read inside \<open>fetchChildren\<close> fails, the call returns the empty list
  and the stored children are those of before: the only events are the read and the
  diagnostic. The empty list returned and the stored children can therefore differ.
\<close>

theorem fetchChildren_failure_keeps_children:
  "\<not> unset (getContractAddress (chainId env)) \<and> or_else owner (userAddress env) = Some t \<and>
   t \<noteq> [] \<and>
   rd (getPublicClient (chainId env)) (getChildren_call env t) = Inl e \<longrightarrow>
   fetchChildren env rd owner s =
     (Inr [],
      s\<lparr>trace := trace s @ [ReadContract (getPublicClient (chainId env)) (getChildren_call env t),
                           Console (ErrFetchChildren e)]\<rparr>) \<and>
   children (snd (fetchChildren env rd owner s)) = children s"
  by (simp add: fetchChildren_read emit_def)

theorem fetchChildren_failure_keeps_children_witness:
  "fst (fetchChildren (scenario 11155111) read_failing None
          (idle\<lparr>children := [\<lparr>childEOA = ''0xAAA'', role = ''admin''\<rparr>]\<rparr>)) = Inr [] \<and>
   children (snd (fetchChildren (scenario 11155111) read_failing None
          (idle\<lparr>children := [\<lparr>childEOA = ''0xAAA'', role = ''admin''\<rparr>]\<rparr>)))
     = [\<lparr>childEOA = ''0xAAA'', role = ''admin''\<rparr>]"
  using fetchChildren_failure_keeps_children
          [where env = "scenario 11155111" and owner = None and t = "''0xU''"
             and rd = read_failing and e = "''timeout''"
             and s = "idle\<lparr>children := [\<lparr>childEOA = ''0xAAA'', role = ''admin''\<rparr>]\<rparr>"]
  by (simp add: unset_getContractAddress scenario_def read_failing_def)

end
